theory Spec2Isabelle
  imports Main "HOL-Library.Sublist" "HOL-Library.AList"
begin

section \<open>Word-level diff: \<open>diffWords\<close> (frontend/src/App.jsx)\<close>

text \<open>
  JavaScript strings are modelled as \<open>string\<close> (lists of 8-bit characters). The regular
  expression class \<open>\s\<close> and \<open>String.prototype.trim\<close> use the same set of white space
  and line terminator characters; on 8-bit characters these are TAB, LF, VT, FF, CR, SPACE
  and NO-BREAK SPACE.
\<close>

definition is_space :: "char \<Rightarrow> bool" where
  "is_space c = (c \<in> set [CHR 0x09, CHR 0x0A, CHR 0x0B, CHR 0x0C, CHR 0x0D, CHR 0x20, CHR 0xA0])"

text \<open>
  \<open>text.split(/\s+/)\<close>: the pieces between maximal runs of white space. A run at the
  start or at the end of the text leaves an empty piece there, and the empty text gives one
  empty piece; \<open>.filter(Boolean)\<close> then drops the empty pieces.
\<close>

function split_ws :: "string \<Rightarrow> string \<Rightarrow> string list" where
  "split_ws cur [] = [cur]"
| "split_ws cur (c # cs) =
     (if is_space c then cur # split_ws [] (dropWhile is_space cs)
      else split_ws (cur @ [c]) cs)"
  by pat_completeness auto
termination
  by (relation "measure (\<lambda>(cur, s). length s)")
     (auto simp: length_dropWhile_le le_imp_less_Suc)

definition tokens :: "string \<Rightarrow> string list" where
  "tokens txt = filter (\<lambda>w. w \<noteq> []) (split_ws [] txt)"

datatype op_kind = Equal | Remove | Add

record operation =
  op_type :: op_kind
  op_value :: string

text \<open>
  The table \<open>dp\<close> has \<open>rows = m + 1\<close> lines of \<open>cols = n + 1\<close> zeros; the two nested
  \<open>for\<close> loops overwrite the cells \<open>dp[i][j]\<close> for \<open>1 \<le> i < rows\<close> and
  \<open>1 \<le> j < cols\<close>, line by line. Every read and write is inside the table.
\<close>

definition dp_init :: "nat \<Rightarrow> nat \<Rightarrow> nat list list" where
  "dp_init rows cols = replicate rows (replicate cols 0)"

definition dp_cell :: "string list \<Rightarrow> string list \<Rightarrow> nat list list \<Rightarrow> nat \<Rightarrow> nat \<Rightarrow> nat list list" where
  "dp_cell beforeWords afterWords dp i j =
     (if beforeWords ! (i - 1) = afterWords ! (j - 1)
      then dp[i := (dp ! i)[j := dp ! (i - 1) ! (j - 1) + 1]]
      else dp[i := (dp ! i)[j := max (dp ! (i - 1) ! j) (dp ! i ! (j - 1))]])"

definition dp_row :: "string list \<Rightarrow> string list \<Rightarrow> nat list list \<Rightarrow> nat \<Rightarrow> nat list list" where
  "dp_row beforeWords afterWords dp i =
     foldl (\<lambda>d j. dp_cell beforeWords afterWords d i j) dp [1 ..< length afterWords + 1]"

definition dp_fill :: "string list \<Rightarrow> string list \<Rightarrow> nat list list" where
  "dp_fill beforeWords afterWords =
     foldl (dp_row beforeWords afterWords)
       (dp_init (length beforeWords + 1) (length afterWords + 1))
       [1 ..< length beforeWords + 1]"

text \<open>
  The backtracking: the first \<open>while\<close> loop runs as long as both indices are positive,
  the second uses up the remaining before-words, the third the remaining after-words.
  \<open>operations.unshift(x)\<close> puts \<open>x\<close> in front of the list.
\<close>

function walk :: "string list \<Rightarrow> string list \<Rightarrow> nat list list \<Rightarrow> nat \<Rightarrow> nat \<Rightarrow> operation list
    \<Rightarrow> nat \<times> nat \<times> operation list" where
  "walk beforeWords afterWords dp i j ops =
     (if i > 0 \<and> j > 0 then
        if beforeWords ! (i - 1) = afterWords ! (j - 1)
        then walk beforeWords afterWords dp (i - 1) (j - 1)
               (\<lparr>op_type = Equal, op_value = beforeWords ! (i - 1)\<rparr> # ops)
        else if dp ! (i - 1) ! j \<ge> dp ! i ! (j - 1)
        then walk beforeWords afterWords dp (i - 1) j
               (\<lparr>op_type = Remove, op_value = beforeWords ! (i - 1)\<rparr> # ops)
        else walk beforeWords afterWords dp i (j - 1)
               (\<lparr>op_type = Add, op_value = afterWords ! (j - 1)\<rparr> # ops)
      else (i, j, ops))"
  by pat_completeness auto
termination
  by (relation "measure (\<lambda>(bw, aw, dp, i, j, ops). i + j)") auto

declare walk.simps [simp del]

function rest_removed :: "string list \<Rightarrow> nat \<Rightarrow> operation list \<Rightarrow> operation list" where
  "rest_removed beforeWords i ops =
     (if i > 0
      then rest_removed beforeWords (i - 1)
             (\<lparr>op_type = Remove, op_value = beforeWords ! (i - 1)\<rparr> # ops)
      else ops)"
  by pat_completeness auto
termination
  by (relation "measure (\<lambda>(bw, i, ops). i)") auto

declare rest_removed.simps [simp del]

function rest_added :: "string list \<Rightarrow> nat \<Rightarrow> operation list \<Rightarrow> operation list" where
  "rest_added afterWords j ops =
     (if j > 0
      then rest_added afterWords (j - 1)
             (\<lparr>op_type = Add, op_value = afterWords ! (j - 1)\<rparr> # ops)
      else ops)"
  by pat_completeness auto
termination
  by (relation "measure (\<lambda>(aw, j, ops). j)") auto

declare rest_added.simps [simp del]

definition diff_operations :: "string list \<Rightarrow> string list \<Rightarrow> operation list" where
  "diff_operations beforeWords afterWords =
     (let dp = dp_fill beforeWords afterWords;
          (i, j, ops) = walk beforeWords afterWords dp (length beforeWords) (length afterWords) []
      in rest_added afterWords j (rest_removed beforeWords i ops))"

fun escapeHtml_char :: "char \<Rightarrow> string" where
  "escapeHtml_char c =
     (if c = CHR ''&'' then ''&amp;''
      else if c = CHR ''<'' then ''&lt;''
      else if c = CHR ''>'' then ''&gt;''
      else if c = CHR 0x22 then ''&quot;''
      else if c = CHR 0x27 then ''&#39;''
      else [c])"

definition escapeHtml :: "string \<Rightarrow> string" where
  "escapeHtml s = concat (map escapeHtml_char s)"

fun join :: "string \<Rightarrow> string list \<Rightarrow> string" where
  "join sep [] = []"
| "join sep [x] = x"
| "join sep (x # y # xs) = x @ sep @ join sep (y # xs)"

definition span :: "string \<Rightarrow> string \<Rightarrow> string" where
  "span klass v = ''<span class='' @ [CHR 0x22] @ klass @ [CHR 0x22] @ ''>'' @ escapeHtml v @ ''</span>''"

record diff_result =
  beforeHtml :: string
  afterHtml :: string

definition operations :: "string \<Rightarrow> string \<Rightarrow> operation list" where
  "operations beforeText afterText = diff_operations (tokens beforeText) (tokens afterText)"

definition diffWords :: "string \<Rightarrow> string \<Rightarrow> diff_result" where
  "diffWords beforeText afterText =
     (let ops = operations beforeText afterText
      in \<lparr>beforeHtml =
            join '' ''
              (map (\<lambda>op. span (if op_type op = Remove then ''diff-removed'' else ''diff-unchanged'')
                            (op_value op))
                 (filter (\<lambda>op. op_type op \<noteq> Add) ops)),
          afterHtml =
            join '' ''
              (map (\<lambda>op. span (if op_type op = Add then ''diff-added'' else ''diff-unchanged'')
                            (op_value op))
                 (filter (\<lambda>op. op_type op \<noteq> Remove) ops))\<rparr>)"



text \<open>The recurrence that the table implements, on the lengths of the two prefixes.\<close>

fun lcs_prefix :: "'a list \<Rightarrow> 'a list \<Rightarrow> nat \<Rightarrow> nat \<Rightarrow> nat" where
  "lcs_prefix A B 0 j = 0"
| "lcs_prefix A B (Suc i) 0 = 0"
| "lcs_prefix A B (Suc i) (Suc j) =
     (if A ! i = B ! j then lcs_prefix A B i j + 1
      else max (lcs_prefix A B i (Suc j)) (lcs_prefix A B (Suc i) j))"

definition count_equal :: "operation list \<Rightarrow> nat" where
  "count_equal ops = length (filter (\<lambda>op. op_type op = Equal) ops)"

section \<open>JSON values and the JavaScript operations applied to them\<close>

text \<open>
  Both the server (index.js) and the page (App.jsx) work on values parsed from JSON. A value is
  \<open>undefined\<close>, \<open>null\<close>, a boolean, a number, a string, an array or an object. Numbers are
  restricted to integers (the code only tests them for truth and prints them). An object is
  the list of its own properties in the order in which JavaScript enumerates them: the keys
  that are array indices first, in ascending numeric order, then the other keys in the order
  of their creation. Values have no identity: where JavaScript compares two arrays or objects
  by reference (\<open>===\<close>, the keys of a \<open>Map\<close>), the model compares their contents, which is
  the same thing for the strings, numbers and booleans that identifiers are.
\<close>

datatype json =
    JUndef
  | JNull
  | JBool bool
  | JNum int
  | JStr string
  | JArr "json list"
  | JObj "(string \<times> json) list"

fun truthy :: "json \<Rightarrow> bool" where
  "truthy JUndef = False"
| "truthy JNull = False"
| "truthy (JBool b) = b"
| "truthy (JNum n) = (n \<noteq> 0)"
| "truthy (JStr s) = (s \<noteq> [])"
| "truthy (JArr xs) = True"
| "truthy (JObj fs) = True"

fun js_typeof :: "json \<Rightarrow> string" where
  "js_typeof JUndef = ''undefined''"
| "js_typeof JNull = ''object''"
| "js_typeof (JBool b) = ''boolean''"
| "js_typeof (JNum n) = ''number''"
| "js_typeof (JStr s) = ''string''"
| "js_typeof (JArr xs) = ''object''"
| "js_typeof (JObj fs) = ''object''"

text \<open>\<open>x && typeof x === 'object'\<close>: an array or an object, not \<open>null\<close>.\<close>

definition is_object :: "json \<Rightarrow> bool" where
  "is_object x = (truthy x \<and> js_typeof x = ''object'')"

definition is_string :: "json \<Rightarrow> bool" where
  "is_string x = (js_typeof x = ''string'')"

fun isArray :: "json \<Rightarrow> bool" where
  "isArray (JArr xs) = True"
| "isArray x = False"

text \<open>\<open>a || b\<close> on values.\<close>

definition js_or :: "json \<Rightarrow> json \<Rightarrow> json" where
  "js_or a b = (if truthy a then a else b)"

text \<open>The elements of \<open>Array.isArray(x) ? x : []\<close>.\<close>

fun elems :: "json \<Rightarrow> json list" where
  "elems (JArr xs) = xs"
| "elems x = []"

text \<open>\<open>list[i]\<close> on an array: \<open>undefined\<close> beyond its end.\<close>

definition at :: "json list \<Rightarrow> nat \<Rightarrow> json" where
  "at xs i = (if i < length xs then xs ! i else JUndef)"

text \<open>The characters of a value known to be a string (none otherwise).\<close>

fun str_of :: "json \<Rightarrow> string" where
  "str_of (JStr s) = s"
| "str_of x = []"

definition digit_char :: "nat \<Rightarrow> char" where
  "digit_char d = ''0123456789'' ! d"

function show_nat :: "nat \<Rightarrow> string" where
  "show_nat n = (if n < 10 then [digit_char n] else show_nat (n div 10) @ [digit_char (n mod 10)])"
  by pat_completeness auto
termination
  by (relation "measure id") auto

declare show_nat.simps [simp del]

definition show_int :: "int \<Rightarrow> string" where
  "show_int n = (if n < 0 then CHR ''-'' # show_nat (nat (- n)) else show_nat (nat n))"

text \<open>
  A key is an array index when it is the decimal numeral, without leading zeros, of a number
  below \<open>2^32 - 1 = 4294967295\<close>.
\<close>

definition is_digit :: "char \<Rightarrow> bool" where
  "is_digit c = (48 \<le> (of_char c :: nat) \<and> (of_char c :: nat) \<le> 57)"

definition array_index :: "string \<Rightarrow> int option" where
  "array_index k =
     (if k \<noteq> [] \<and> list_all is_digit k \<and> (k = ''0'' \<or> hd k \<noteq> CHR ''0'')
      then (let n = foldl (\<lambda>a c. 10 * a + (of_char c - 48)) (0 :: int) k
            in if n < 4294967295 then Some n else None)
      else None)"

text \<open>
  The own enumerable properties of a value, as \<open>{...x}\<close> and \<open>Object.keys(x)\<close> see them: the
  properties of an object, the elements of an array under their indices, the characters of a
  string under their indices, and nothing for the other values.
\<close>

fun own_entries :: "json \<Rightarrow> (string \<times> json) list" where
  "own_entries (JObj fs) = fs"
| "own_entries (JArr xs) = zip (map show_nat [0 ..< length xs]) xs"
| "own_entries (JStr s) = zip (map show_nat [0 ..< length s]) (map (\<lambda>c. JStr [c]) s)"
| "own_entries x = []"

definition object_keys :: "json \<Rightarrow> string list" where
  "object_keys x = map fst (own_entries x)"

text \<open>
  \<open>x.k\<close> and \<open>x?.k\<close> for a property name \<open>k\<close>. The names the code reads are data properties
  and \<open>length\<close>; none of them is inherited from a prototype. On \<open>undefined\<close> and \<open>null\<close>
  the optional form \<open>x?.k\<close> gives \<open>undefined\<close>; the places where the code reads \<open>x.k\<close> on a
  value that may be \<open>null\<close> raise a TypeError and are modelled where they occur.
\<close>

fun get :: "json \<Rightarrow> string \<Rightarrow> json" where
  "get (JObj fs) k = (case map_of fs k of Some v \<Rightarrow> v | None \<Rightarrow> JUndef)"
| "get (JArr xs) k =
     (if k = ''length'' then JNum (int (length xs))
      else case map_of (own_entries (JArr xs)) k of Some v \<Rightarrow> v | None \<Rightarrow> JUndef)"
| "get (JStr s) k =
     (if k = ''length'' then JNum (int (length s))
      else case map_of (own_entries (JStr s)) k of Some v \<Rightarrow> v | None \<Rightarrow> JUndef)"
| "get x k = JUndef"

text \<open>\<open>x[i]\<close> and \<open>x?.[i]\<close> for a number \<open>i\<close>.\<close>

fun index :: "json \<Rightarrow> nat \<Rightarrow> json" where
  "index (JArr xs) i = at xs i"
| "index (JStr s) i = (if i < length s then JStr [s ! i] else JUndef)"
| "index (JObj fs) i = get (JObj fs) (show_nat i)"
| "index x i = JUndef"

text \<open>
  \<open>o[k] = v\<close> on an object: an existing property keeps its place; a new array index goes
  after the array indices that do not exceed it (none equals it, the key being new); any
  other new key goes to the end.
\<close>

fun insert_index :: "int \<Rightarrow> string \<Rightarrow> json \<Rightarrow> (string \<times> json) list \<Rightarrow> (string \<times> json) list" where
  "insert_index n k v [] = [(k, v)]"
| "insert_index n k v ((k', v') # fs) =
     (case array_index k' of
        Some n' \<Rightarrow> if n' \<le> n then (k', v') # insert_index n k v fs else (k, v) # (k', v') # fs
      | None \<Rightarrow> (k, v) # (k', v') # fs)"

definition obj_set :: "string \<Rightarrow> json \<Rightarrow> (string \<times> json) list \<Rightarrow> (string \<times> json) list" where
  "obj_set k v fs =
     (if k \<in> fst ` set fs then AList.update k v fs
      else case array_index k of Some n \<Rightarrow> insert_index n k v fs | None \<Rightarrow> fs @ [(k, v)])"

text \<open>\<open>{...o, ...x}\<close>: the own properties of \<open>x\<close> are set on a copy of \<open>o\<close>, in their order.\<close>

definition spread_into :: "(string \<times> json) list \<Rightarrow> json \<Rightarrow> (string \<times> json) list" where
  "spread_into fs x = foldl (\<lambda>acc (k, v). obj_set k v acc) fs (own_entries x)"

text \<open>\<open>x.k = v\<close> on a value that the code has built as an object.\<close>

fun set_prop :: "json \<Rightarrow> string \<Rightarrow> json \<Rightarrow> json" where
  "set_prop (JObj fs) k v = JObj (obj_set k v fs)"
| "set_prop x k v = x"

text \<open>\<open>String(x)\<close>, as a template literal and \<open>Array.prototype.join\<close> apply it.\<close>

fun to_string :: "json \<Rightarrow> string" where
  "to_string JUndef = ''undefined''"
| "to_string JNull = ''null''"
| "to_string (JBool b) = (if b then ''true'' else ''false'')"
| "to_string (JNum n) = show_int n"
| "to_string (JStr s) = s"
| "to_string (JArr xs) =
     join '','' (map (\<lambda>x. if x = JUndef \<or> x = JNull then [] else to_string x) xs)"
| "to_string (JObj fs) = ''[object Object]''"

definition trim :: "string \<Rightarrow> string" where
  "trim s = rev (dropWhile is_space (rev (dropWhile is_space s)))"

text \<open>
  A \<open>for\<close> loop over \<open>0 \<le> i < n\<close> whose body either skips the index (\<open>continue\<close>, or a
  test that fails) or pushes one value on the result.
\<close>

definition push_loop :: "nat \<Rightarrow> (nat \<Rightarrow> 'a option) \<Rightarrow> 'a list" where
  "push_loop n body = foldl (\<lambda>acc i. case body i of None \<Rightarrow> acc | Some x \<Rightarrow> acc @ [x]) [] [0 ..< n]"

section \<open>The normalizer (server, index.js)\<close>

definition experienceTemplate :: "(string \<times> json) list" where
  "experienceTemplate =
     [(''company'', JStr ''''), (''role'', JStr ''''), (''location'', JStr ''''),
      (''startDate'', JStr ''''), (''endDate'', JStr ''''), (''isCurrent'', JStr ''''),
      (''points'', JArr [])]"

definition projectTemplate :: "(string \<times> json) list" where
  "projectTemplate =
     [(''name'', JStr ''''), (''technologies'', JStr ''''), (''link'', JStr ''''),
      (''points'', JArr [])]"

definition educationTemplate :: "(string \<times> json) list" where
  "educationTemplate =
     [(''institution'', JStr ''''), (''degree'', JStr ''''), (''field'', JStr ''''),
      (''startDate'', JStr ''''), (''endDate'', JStr '''')]"

definition certificateTemplate :: "(string \<times> json) list" where
  "certificateTemplate = [(''name'', JStr ''''), (''issuer'', JStr ''''), (''year'', JStr '''')]"

definition emptyBasics :: "(string \<times> json) list" where
  "emptyBasics =
     [(''name'', JStr ''''), (''email'', JStr ''''), (''phone'', JStr ''''),
      (''location'', JStr ''''), (''linkedin'', JStr ''''), (''github'', JStr ''''),
      (''portfolio'', JStr '''')]"

definition emptyResumeJson :: "(string \<times> json) list" where
  "emptyResumeJson =
     [(''basics'', JObj emptyBasics),
      (''summary'', JObj [(''id'', JStr ''summary-1''), (''text'', JStr '''')]),
      (''skills'', JArr []), (''experience'', JArr []), (''projects'', JArr []),
      (''education'', JArr []), (''certificates'', JArr [])]"

text \<open>
  \<open>typeof x.id === 'string' && x.id.trim()\<close>: the trimmed identifier when it is a string
  that is not blank, nothing otherwise.
\<close>

definition trimmed_id :: "json \<Rightarrow> string option" where
  "trimmed_id x =
     (if is_string (get x ''id'') \<and> trim (str_of (get x ''id'')) \<noteq> []
      then Some (trim (str_of (get x ''id''))) else None)"

text \<open>The parameter \<open>fallbackId\<close> has the default \<open>'summary-1'\<close>, used when it is \<open>undefined\<close>.\<close>

definition normalizeSummaryValue :: "json \<Rightarrow> json \<Rightarrow> json" where
  "normalizeSummaryValue summary fallbackArg =
     (let fallbackId = (if fallbackArg = JUndef then JStr ''summary-1'' else fallbackArg)
      in if is_object summary then
           JObj [(''id'', case trimmed_id summary of Some i \<Rightarrow> JStr i | None \<Rightarrow> fallbackId),
                 (''text'', if is_string (get summary ''text'') then get summary ''text'' else JStr '''')]
         else if is_string summary then JObj [(''id'', fallbackId), (''text'', summary)]
         else JObj [(''id'', fallbackId), (''text'', JStr '''')])"

definition normalizeSkillEntry :: "json \<Rightarrow> nat \<Rightarrow> json \<Rightarrow> json" where
  "normalizeSkillEntry entry idx fallbackId =
     (if \<not> is_object entry then JNull
      else let normalized = spread_into [] entry;
               idValue = (case trimmed_id (JObj normalized) of
                            Some i \<Rightarrow> JStr i
                          | None \<Rightarrow> js_or fallbackId (JStr (''skill-'' @ show_nat (idx + 1))))
           in JObj (obj_set ''id'' idValue normalized))"

definition normalizeSkillsList :: "json \<Rightarrow> json \<Rightarrow> json list" where
  "normalizeSkillsList skills resumeSkills =
     (let list = elems skills; fallback = elems resumeSkills
      in push_loop (max (length list) (length fallback))
           (\<lambda>i. let entry = at list i; fallbackEntry = at fallback i
                in if \<not> truthy entry \<and> \<not> truthy fallbackEntry then None
                   else let fallbackId =
                              (if is_object fallbackEntry \<and> is_string (get fallbackEntry ''id'')
                               then get fallbackEntry ''id''
                               else JStr (''skill-'' @ show_nat (i + 1)));
                            normalizedEntry = normalizeSkillEntry (js_or entry fallbackEntry) i fallbackId
                        in if truthy normalizedEntry then Some normalizedEntry else None))"

definition getPointText :: "json \<Rightarrow> string" where
  "getPointText point =
     (if is_string point then str_of point
      else if is_object point then
        (if is_string (get point ''text'') then str_of (get point ''text'')
         else if is_string (get point ''value'') then str_of (get point ''value'')
         else '''')
      else '''')"

definition normalizePointsList :: "json \<Rightarrow> json \<Rightarrow> string \<Rightarrow> json list" where
  "normalizePointsList points resumePoints prefix_str =
     (let list = elems points; fallback = elems resumePoints
      in push_loop (max (length list) (length fallback))
           (\<lambda>i. let point = at list i; fallbackPoint = at fallback i
                in if \<not> truthy point \<and> \<not> truthy fallbackPoint then None
                   else let idValue =
                              (case (if is_object point then trimmed_id point else None) of
                                 Some p \<Rightarrow> p
                               | None \<Rightarrow>
                                  (case (if is_object fallbackPoint then trimmed_id fallbackPoint else None) of
                                     Some f \<Rightarrow> f
                                   | None \<Rightarrow> prefix_str @ ''-'' @ show_nat (i + 1)));
                            textValue = getPointText (js_or point fallbackPoint)
                        in Some (JObj [(''id'', JStr idValue), (''text'', JStr textValue)])))"

text \<open>\<open>x && typeof x === 'object' ? x : {}\<close>.\<close>

definition object_or_empty :: "json \<Rightarrow> json" where
  "object_or_empty x = (if is_object x then x else JObj [])"

definition normalizeArrayObjects :: "json \<Rightarrow> (string \<times> json) list \<Rightarrow> json \<Rightarrow> json list" where
  "normalizeArrayObjects list template fallbackList =
     (let items = elems list; fallback = elems fallbackList
      in push_loop (max (length items) (length fallback))
           (\<lambda>i. let item = at items i; fallbackItem = at fallback i
                in if \<not> truthy item \<and> \<not> truthy fallbackItem then None
                   else Some (JObj (spread_into
                                      (spread_into (spread_into [] (JObj template))
                                         (object_or_empty fallbackItem))
                                      (object_or_empty item)))))"

definition normalizeExperienceList :: "json \<Rightarrow> json \<Rightarrow> json list" where
  "normalizeExperienceList list resumeList =
     (let items = elems list; fallback = elems resumeList
      in push_loop (max (length items) (length fallback))
           (\<lambda>i. let item = at items i; fallbackItem = at fallback i
                in if \<not> truthy item \<and> \<not> truthy fallbackItem then None
                   else let merged = spread_into
                                       (spread_into (spread_into [] (JObj experienceTemplate))
                                          (object_or_empty fallbackItem))
                                       (object_or_empty item)
                        in Some (JObj (obj_set ''points''
                                   (JArr (normalizePointsList (get item ''points'')
                                            (get fallbackItem ''points'')
                                            (''exp-'' @ show_nat (i + 1))))
                                   merged))))"

definition normalizeProjectList :: "json \<Rightarrow> json \<Rightarrow> json list" where
  "normalizeProjectList list resumeList =
     (let items = elems list; fallback = elems resumeList
      in push_loop (max (length items) (length fallback))
           (\<lambda>i. let item = at items i; fallbackItem = at fallback i
                in if \<not> truthy item \<and> \<not> truthy fallbackItem then None
                   else let merged = spread_into
                                       (spread_into (spread_into [] (JObj projectTemplate))
                                          (object_or_empty fallbackItem))
                                       (object_or_empty item)
                        in Some (JObj (obj_set ''points''
                                   (JArr (normalizePointsList (get item ''points'')
                                            (get fallbackItem ''points'')
                                            (''proj-'' @ show_nat (i + 1))))
                                   merged))))"

definition normalizeResumeJson :: "json \<Rightarrow> json" where
  "normalizeResumeJson input =
     (let base = spread_into [] (JObj emptyResumeJson)
      in if is_object input then
           (let b1 = obj_set ''basics''
                       (JObj (spread_into (spread_into [] (get (JObj base) ''basics''))
                                (js_or (get input ''basics'') (JObj [])))) base;
                b2 = obj_set ''summary'' (normalizeSummaryValue (get input ''summary'') JUndef) b1;
                b3 = obj_set ''skills'' (JArr (normalizeSkillsList (get input ''skills'') JUndef)) b2;
                b4 = obj_set ''experience''
                       (JArr (normalizeExperienceList (get input ''experience'') JUndef)) b3;
                b5 = obj_set ''projects''
                       (JArr (normalizeProjectList (get input ''projects'') JUndef)) b4;
                b6 = obj_set ''education''
                       (JArr (normalizeArrayObjects (get input ''education'') educationTemplate JUndef)) b5;
                b7 = obj_set ''certificates''
                       (JArr (normalizeArrayObjects (get input ''certificates'') certificateTemplate JUndef)) b6
            in JObj b7)
         else JObj base)"

section \<open>Change items and the merge (page, App.jsx)\<close>

text \<open>\<open>a && b\<close> on values.\<close>

definition js_and :: "json \<Rightarrow> json \<Rightarrow> json" where
  "js_and a b = (if truthy a then b else a)"

text \<open>The pair \<open>{label, value}\<close> of a skill entry.\<close>

definition extractSkillLabelValue :: "json \<Rightarrow> string \<times> string" where
  "extractSkillLabelValue entry =
     (if \<not> is_object entry then ('''', '''')
      else if is_string (get entry ''label'') \<or> is_string (get entry ''value'') then
        (if is_string (get entry ''label'') then str_of (get entry ''label'') else '''',
         if is_string (get entry ''value'') then str_of (get entry ''value'') else '''')
      else
        (let keys = filter (\<lambda>key. key \<noteq> ''id'') (object_keys entry);
             label = (case keys of [] \<Rightarrow> '''' | k # ks \<Rightarrow> k);
             v = (if label \<noteq> '''' then get entry label else JStr '''')
         in (label, if is_string v then str_of v else '''')))"

definition skillEntryToText :: "json \<Rightarrow> string" where
  "skillEntryToText entry =
     (let (label, v) = extractSkillLabelValue entry
      in if label = '''' \<and> v = '''' then ''''
         else if v \<noteq> '''' then label @ '': '' @ v else label)"

definition skillEntryLabel :: "json \<Rightarrow> string" where
  "skillEntryLabel entry = fst (extractSkillLabelValue entry)"

definition getSummaryText :: "json \<Rightarrow> json" where
  "getSummaryText summary =
     (if is_string summary then summary else js_or (get summary ''text'') (JStr ''''))"

definition getSummaryId :: "json \<Rightarrow> json" where
  "getSummaryId summary =
     (if is_object summary \<and> truthy (get summary ''id'') then get summary ''id''
      else JStr ''summary-1'')"

definition getPointId :: "json \<Rightarrow> string \<Rightarrow> string" where
  "getPointId point fallbackId =
     (if is_object point \<and> is_string (get point ''id'') \<and> str_of (get point ''id'') \<noteq> ''''
      then str_of (get point ''id'') else fallbackId)"

text \<open>
  The items that \<open>buildChangeItems\<close> pushes. The property \<open>type\<close> of an item is the
  constructor; the texts \<open>before\<close> and \<open>after\<close> are strings except for a summary whose
  \<open>text\<close> is not a string.
\<close>

datatype change_item =
    SummaryItem (item_id: string) (item_before: json) (item_after: json) (item_summaryId: json)
  | SkillItem (item_id: string) (item_title: string) (item_skillId: json) (item_before: json) (item_after: json)
  | ExperienceItem (item_id: string) (item_group: json) (item_jobIndex: nat) (item_pointId: string)
      (item_before: json) (item_after: json)
  | ProjectItem (item_id: string) (item_group: json) (item_projectIndex: nat) (item_pointId: string)
      (item_before: json) (item_after: json)

text \<open>
  A \<open>Map\<close> is the list of its entries in insertion order; \<open>set\<close> on a key that is present
  replaces the value and keeps the place (\<open>AList.update\<close>), \<open>get\<close> is \<open>map_of\<close>.
  \<open>index_map key\<close> is the loop \<open>list.forEach((x, index) => map.set(key(x, index), {x, index}))\<close>.
\<close>

definition skill_key :: "json \<Rightarrow> nat \<Rightarrow> json" where
  "skill_key entry idx =
     js_or (js_and entry (get entry ''id'')) (JStr (''skill-'' @ show_nat (idx + 1)))"

definition index_map :: "('a \<Rightarrow> nat \<Rightarrow> 'k) \<Rightarrow> 'a list \<Rightarrow> ('k \<times> 'a \<times> nat) list" where
  "index_map key xs =
     foldl (\<lambda>m (idx, x). AList.update (key x idx) (x, idx) m) [] (enumerate 0 xs)"

definition skillMap :: "json list \<Rightarrow> (json \<times> json \<times> nat) list" where
  "skillMap skills = index_map skill_key skills"

definition orderedIds :: "('k \<times> 'v) list \<Rightarrow> ('k \<times> 'v) list \<Rightarrow> 'k list" where
  "orderedIds resumeMap analysisMap =
     map fst resumeMap @ filter (\<lambda>id. id \<notin> fst ` set resumeMap) (map fst analysisMap)"

text \<open>\<open>map.get(id)?.entry || null\<close>.\<close>

definition entry_at :: "(json \<times> json \<times> nat) list \<Rightarrow> json \<Rightarrow> json" where
  "entry_at m skillId = (case map_of m skillId of Some (entry, idx) \<Rightarrow> js_or entry JNull | None \<Rightarrow> JNull)"

definition skill_items :: "json \<Rightarrow> json \<Rightarrow> change_item list" where
  "skill_items resumeJson analysisJson =
     (let resumeSkillMap = skillMap (elems (get resumeJson ''skills''));
          analysisSkillMap = skillMap (elems (get analysisJson ''skills''));
          orderedSkillIds = orderedIds resumeSkillMap analysisSkillMap
      in List.map_filter
           (\<lambda>(idx, skillId).
              let beforeEntry = entry_at resumeSkillMap skillId;
                  afterEntry = entry_at analysisSkillMap skillId;
                  beforeText = skillEntryToText beforeEntry;
                  afterText = skillEntryToText afterEntry
              in if beforeText = '''' \<and> afterText = '''' then None
                 else if beforeText = afterText then None
                 else Some (SkillItem (''skill:'' @ to_string skillId)
                        (if skillEntryLabel afterEntry \<noteq> '''' then skillEntryLabel afterEntry
                         else if skillEntryLabel beforeEntry \<noteq> '''' then skillEntryLabel beforeEntry
                         else ''Skill '' @ show_nat (idx + 1))
                        skillId (JStr beforeText) (JStr afterText)))
           (enumerate 0 orderedSkillIds))"

definition pointMap :: "string \<Rightarrow> json list \<Rightarrow> (string \<times> json \<times> nat) list" where
  "pointMap prefix_str points =
     index_map (\<lambda>point idx. getPointId point (prefix_str @ ''-'' @ show_nat (idx + 1))) points"

text \<open>\<open>getPointText(map.get(id)?.point)\<close>.\<close>

definition point_text_at :: "(string \<times> json \<times> nat) list \<Rightarrow> string \<Rightarrow> string" where
  "point_text_at m pointId =
     getPointText (case map_of m pointId of Some (point, idx) \<Rightarrow> point | None \<Rightarrow> JUndef)"

text \<open>
  The inner \<open>forEach\<close> of the two loops over jobs and projects is the same text; \<open>mk\<close> is the
  item pushed for a point identifier and its two texts.
\<close>

definition point_items :: "string \<Rightarrow> json \<Rightarrow> json \<Rightarrow> (string \<Rightarrow> string \<Rightarrow> string \<Rightarrow> change_item)
    \<Rightarrow> change_item list" where
  "point_items prefix_str resumeEntry analysisEntry mk =
     (let resumePointMap = pointMap prefix_str (elems (get resumeEntry ''points''));
          analysisPointMap = pointMap prefix_str (elems (get analysisEntry ''points''));
          orderedPointIds = orderedIds resumePointMap analysisPointMap
      in List.map_filter
           (\<lambda>pointId.
              let b = point_text_at resumePointMap pointId;
                  a = point_text_at analysisPointMap pointId
              in if b = '''' \<and> a = '''' then None
                 else if b = a then None
                 else Some (mk pointId b a))
           orderedPointIds)"

text \<open>
  \<open>Math.max(x.length, y.length)\<close> as the number of rounds of the loop that it bounds. The
  \<open>length\<close> of an array or a string is its length; a number, a boolean or an object
  without that property has none, and then the maximum is \<open>NaN\<close> and the loop body never
  runs. An object with its own property \<open>length\<close> is covered when that property is a number.
\<close>

fun length_of :: "json \<Rightarrow> int option" where
  "length_of (JArr xs) = Some (int (length xs))"
| "length_of (JStr s) = Some (int (length s))"
| "length_of (JObj fs) = (case map_of fs ''length'' of Some (JNum n) \<Rightarrow> Some n | _ \<Rightarrow> None)"
| "length_of x = None"

definition rounds :: "json \<Rightarrow> json \<Rightarrow> nat" where
  "rounds x y =
     (case (length_of x, length_of y) of (Some m, Some n) \<Rightarrow> nat (max m n) | _ \<Rightarrow> 0)"

definition experience_items :: "json \<Rightarrow> json \<Rightarrow> change_item list" where
  "experience_items resumeJson analysisJson =
     (let resumeExperience = js_or (get resumeJson ''experience'') (JArr []);
          analysisExperience = js_or (get analysisJson ''experience'') (JArr [])
      in concat (map
           (\<lambda>jobIndex.
              let resumeJob = js_or (index resumeExperience jobIndex) (JObj []);
                  analysisJob = js_or (index analysisExperience jobIndex) (JObj []);
                  labelParts = join ([CHR 0x20, CHR 0xB7, CHR 0x20])
                    (map to_string (filter truthy
                       [js_or (get analysisJob ''role'') (get resumeJob ''role''),
                        js_or (get analysisJob ''company'') (get resumeJob ''company'')]));
                  grp = (if labelParts \<noteq> '''' then labelParts
                         else ''Experience '' @ show_nat (jobIndex + 1))
              in point_items (''exp-'' @ show_nat (jobIndex + 1)) resumeJob analysisJob
                   (\<lambda>pointId b a.
                      ExperienceItem (''exp:'' @ show_nat jobIndex @ '':'' @ pointId) (JStr grp)
                        jobIndex pointId (JStr b) (JStr a)))
           [0 ..< rounds resumeExperience analysisExperience]))"

definition project_items :: "json \<Rightarrow> json \<Rightarrow> change_item list" where
  "project_items resumeJson analysisJson =
     (let resumeProjects = js_or (get resumeJson ''projects'') (JArr []);
          analysisProjects = js_or (get analysisJson ''projects'') (JArr [])
      in concat (map
           (\<lambda>projectIndex.
              let resumeProject = js_or (index resumeProjects projectIndex) (JObj []);
                  analysisProject = js_or (index analysisProjects projectIndex) (JObj []);
                  grp = js_or (get analysisProject ''name'')
                          (js_or (get resumeProject ''name'')
                             (JStr (''Project '' @ show_nat (projectIndex + 1))))
              in point_items (''proj-'' @ show_nat (projectIndex + 1)) resumeProject analysisProject
                   (\<lambda>pointId b a.
                      ProjectItem (''proj:'' @ show_nat projectIndex @ '':'' @ pointId) grp
                        projectIndex pointId (JStr b) (JStr a)))
           [0 ..< rounds resumeProjects analysisProjects]))"

definition summary_items :: "json \<Rightarrow> json \<Rightarrow> change_item list" where
  "summary_items resumeJson analysisJson =
     (let summaryBefore = getSummaryText (get resumeJson ''summary'');
          summaryAfter = getSummaryText (get analysisJson ''summary'')
      in if truthy summaryAfter \<and> summaryAfter \<noteq> summaryBefore then
           (let sid = js_or (getSummaryId (get analysisJson ''summary''))
                        (getSummaryId (get resumeJson ''summary''))
            in [SummaryItem (''summary:'' @ to_string sid) summaryBefore summaryAfter sid])
         else [])"

definition buildChangeItems :: "json \<Rightarrow> json \<Rightarrow> change_item list" where
  "buildChangeItems resumeJson analysisJson =
     (if \<not> truthy resumeJson \<or> \<not> truthy analysisJson then []
      else summary_items resumeJson analysisJson @ skill_items resumeJson analysisJson
           @ experience_items resumeJson analysisJson @ project_items resumeJson analysisJson)"

text \<open>
  \<open>buildUpdatedResumeData\<close>. Reading \<open>item.points\<close> on a job that is \<open>null\<close> or
  \<open>undefined\<close> raises a TypeError, and the first one ends the call.
\<close>

datatype error = TypeError

definition clonePoints :: "json \<Rightarrow> json list" where
  "clonePoints points =
     map (\<lambda>point. if is_object point then JObj (spread_into [] point) else point) (elems points)"

definition clone_job :: "json \<Rightarrow> json" where
  "clone_job item =
     JObj (obj_set ''points'' (JArr (clonePoints (get item ''points''))) (spread_into [] item))"

fun clone_each :: "json list \<Rightarrow> error + json list" where
  "clone_each [] = Inr []"
| "clone_each (item # items) =
     (if item = JNull \<or> item = JUndef then Inl TypeError
      else case clone_each items of
             Inl e \<Rightarrow> Inl e
           | Inr rest \<Rightarrow> Inr (clone_job item # rest))"

definition cloneJobs :: "json \<Rightarrow> error + json list" where
  "cloneJobs items = clone_each (elems items)"

text \<open>
  The properties \<open>summary\<close>, \<open>skills\<close>, \<open>experience\<close> and \<open>projects\<close> of \<open>updated\<close> are the
  ones that the loop over the items reads and assigns. The model keeps them in a record and
  builds the object \<open>updated\<close> from it at the end; assigning a property that an object has
  keeps the place of the property.
\<close>

record working =
  w_summary :: json
  w_skills :: "json list"
  w_experience :: "json list"
  w_projects :: "json list"

definition assemble :: "json \<Rightarrow> working \<Rightarrow> json" where
  "assemble resumeJson w =
     JObj (foldl (\<lambda>acc (k, v). obj_set k v acc) (spread_into [] resumeJson)
       [(''basics'', JObj (spread_into [] (js_or (get resumeJson ''basics'') (JObj [])))),
        (''summary'', w_summary w),
        (''skills'', JArr (w_skills w)),
        (''experience'', JArr (w_experience w)),
        (''projects'', JArr (w_projects w)),
        (''education'', JArr (map (\<lambda>item. JObj (spread_into [] item)) (elems (get resumeJson ''education'')))),
        (''certificates'', JArr (map (\<lambda>item. JObj (spread_into [] item)) (elems (get resumeJson ''certificates''))))])"

fun findIndex :: "('a \<Rightarrow> bool) \<Rightarrow> 'a list \<Rightarrow> nat option" where
  "findIndex P [] = None"
| "findIndex P (x # xs) = (if P x then Some 0 else map_option Suc (findIndex P xs))"

text \<open>\<open>list.find(P)\<close>: \<open>undefined\<close> when no element satisfies \<open>P\<close>.\<close>

definition find_or_undef :: "(json \<Rightarrow> bool) \<Rightarrow> json list \<Rightarrow> json" where
  "find_or_undef P xs = (case find P xs of Some x \<Rightarrow> x | None \<Rightarrow> JUndef)"

text \<open>\<open>(entry?.id || '') === skillId\<close>.\<close>

definition has_skill_id :: "json \<Rightarrow> json \<Rightarrow> bool" where
  "has_skill_id skillId entry = (js_or (get entry ''id'') (JStr '''') = skillId)"

definition apply_skill :: "json \<Rightarrow> json \<Rightarrow> json list \<Rightarrow> json list" where
  "apply_skill analysisJson skillId skills =
     (let analysisSkill =
            (if isArray (get analysisJson ''skills'')
             then find_or_undef (has_skill_id skillId) (elems (get analysisJson ''skills''))
             else JNull);
          existingIndex = findIndex (has_skill_id skillId) skills
      in if is_object analysisSkill \<and> object_keys analysisSkill \<noteq> [] then
           (case existingIndex of
              Some i \<Rightarrow> skills[i := analysisSkill]
            | None \<Rightarrow> skills @ [analysisSkill])
         else
           (case existingIndex of
              Some i \<Rightarrow> take i skills @ drop (Suc i) skills
            | None \<Rightarrow> skills))"

text \<open>
  The branches for \<open>experience\<close> and \<open>project\<close> items are the same text on two properties.
  \<open>analysisJob\<close> is \<open>analysisJson.experience?.[item.jobIndex]\<close>, and \<open>jobs\<close> is
  \<open>updated.experience\<close>. The jobs pushed by the \<open>while\<close> loop stay when the point is not
  found afterwards.
\<close>

definition nextPoint :: "json \<Rightarrow> string \<Rightarrow> json" where
  "nextPoint analysisPoint pointId =
     JObj [(''id'', JStr (getPointId analysisPoint pointId)),
           (''text'', JStr (getPointText analysisPoint))]"

definition apply_point :: "json \<Rightarrow> nat \<Rightarrow> string \<Rightarrow> json list \<Rightarrow> json list" where
  "apply_point analysisJob jobIndex pointId jobs =
     (if \<not> truthy analysisJob then jobs
      else
        (let jobs1 = jobs @ replicate (jobIndex + 1 - length jobs)
                              (JObj (obj_set ''points'' (JArr []) (spread_into [] analysisJob)));
             job = jobs1 ! jobIndex;
             job1 = (if \<not> isArray (get job ''points'') then set_prop job ''points'' (JArr []) else job);
             analysisPoints = elems (get analysisJob ''points'');
             analysisPoint = find_or_undef (\<lambda>point. getPointId point '''' = pointId) analysisPoints
         in if \<not> truthy analysisPoint then jobs1[jobIndex := job1]
            else
              (let points = elems (get job1 ''points'');
                   points1 = (case findIndex (\<lambda>point. getPointId point '''' = pointId) points of
                                Some i \<Rightarrow> points[i := nextPoint analysisPoint pointId]
                              | None \<Rightarrow> points @ [nextPoint analysisPoint pointId])
               in jobs1[jobIndex := set_prop job1 ''points'' (JArr points1)])))"

fun apply_item :: "json \<Rightarrow> working \<Rightarrow> change_item \<Rightarrow> working" where
  "apply_item analysisJson w (SummaryItem i b a sid) =
     w\<lparr>w_summary :=
         (if is_object (get analysisJson ''summary'')
          then JObj (spread_into [] (get analysisJson ''summary''))
          else js_or (get analysisJson ''summary'') (w_summary w))\<rparr>"
| "apply_item analysisJson w (SkillItem i t skillId b a) =
     w\<lparr>w_skills := apply_skill analysisJson skillId (w_skills w)\<rparr>"
| "apply_item analysisJson w (ExperienceItem i g jobIndex pointId b a) =
     w\<lparr>w_experience :=
         apply_point (index (get analysisJson ''experience'') jobIndex) jobIndex pointId
           (w_experience w)\<rparr>"
| "apply_item analysisJson w (ProjectItem i g projectIndex pointId b a) =
     w\<lparr>w_projects :=
         apply_point (index (get analysisJson ''projects'') projectIndex) projectIndex pointId
           (w_projects w)\<rparr>"

definition apply_changes :: "json \<Rightarrow> (string \<Rightarrow> bool) \<Rightarrow> working \<Rightarrow> change_item list \<Rightarrow> working" where
  "apply_changes analysisJson changeState w changeItems =
     foldl (\<lambda>acc item. if changeState (item_id item) then apply_item analysisJson acc item else acc)
       w changeItems"

text \<open>The four properties of the object literal \<open>updated\<close>, given the two cloned lists.\<close>

definition initial_copy :: "json \<Rightarrow> json list \<Rightarrow> json list \<Rightarrow> working" where
  "initial_copy resumeJson experience projects =
     \<lparr>w_summary =
        (if is_object (get resumeJson ''summary'')
         then JObj (spread_into [] (get resumeJson ''summary''))
         else get resumeJson ''summary''),
      w_skills = elems (get resumeJson ''skills''),
      w_experience = experience,
      w_projects = projects\<rparr>"

definition buildUpdatedResumeData :: "json \<Rightarrow> json \<Rightarrow> change_item list \<Rightarrow> (string \<Rightarrow> bool)
    \<Rightarrow> error + json" where
  "buildUpdatedResumeData resumeJson analysisJson changeItems changeState =
     (if \<not> truthy resumeJson then Inr JNull
      else
        case cloneJobs (get resumeJson ''experience'') of
          Inl e \<Rightarrow> Inl e
        | Inr experience \<Rightarrow>
           (case cloneJobs (get resumeJson ''projects'') of
              Inl e \<Rightarrow> Inl e
            | Inr projects \<Rightarrow>
               (let updated = initial_copy resumeJson experience projects
                in if \<not> truthy analysisJson then Inr (assemble resumeJson updated)
                   else
                     (let u = apply_changes analysisJson changeState updated changeItems
                      in Inr (assemble resumeJson
                           (u\<lparr>w_skills :=
                                filter (\<lambda>entry. is_object entry \<and> object_keys entry \<noteq> [])
                                  (w_skills u)\<rparr>))))))"

section \<open>Notions used to state the properties\<close>

text \<open>
  The position \<open>i\<close> holds the last element of the list whose key is \<open>k\<close>: the element
  that a \<open>Map\<close> filled by \<open>index_map\<close> keeps for \<open>k\<close>.
\<close>

definition last_with_key :: "('a \<Rightarrow> nat \<Rightarrow> 'k) \<Rightarrow> 'a list \<Rightarrow> 'k \<Rightarrow> nat \<Rightarrow> bool" where
  "last_with_key key xs k i =
     (i < length xs \<and> key (xs ! i) i = k \<and> (\<forall>j \<in> {i + 1 ..< length xs}. key (xs ! j) j \<noteq> k))"

text \<open>A skill entry that is not an object, or whose only key is \<open>id\<close>.\<close>

definition no_label_entry :: "json \<Rightarrow> bool" where
  "no_label_entry entry = (\<not> is_object entry \<or> (is_object entry \<and> object_keys entry = [''id'']))"

text \<open>A string, a number, a boolean, \<open>null\<close> or \<open>undefined\<close>: a value compared by content.\<close>

fun is_primitive :: "json \<Rightarrow> bool" where
  "is_primitive (JArr xs) = False"
| "is_primitive (JObj fs) = False"
| "is_primitive x = True"

fun skill_item_for :: "json \<Rightarrow> change_item \<Rightarrow> bool" where
  "skill_item_for k (SkillItem i t skillId b a) = (skillId = k)"
| "skill_item_for k item = False"

text \<open>The shape of a normalized document.\<close>

fun is_obj :: "json \<Rightarrow> bool" where
  "is_obj (JObj fs) = True"
| "is_obj x = False"


text \<open>An object with exactly the keys \<open>id\<close> and \<open>text\<close>, both strings, the first not empty.\<close>

definition is_id_text :: "json \<Rightarrow> bool" where
  "is_id_text p =
     (p = JObj [(''id'', JStr (str_of (get p ''id''))), (''text'', JStr (str_of (get p ''text'')))]
      \<and> str_of (get p ''id'') \<noteq> '''')"








text \<open>
  The order in which JavaScript enumerates the keys of an object: array indices in ascending
  order, then the other keys. A list of properties in that order, without a repeated key,
  is what \<open>JSON.parse\<close> and the object literals of the code produce.
\<close>

definition key_before :: "string \<Rightarrow> string \<Rightarrow> bool" where
  "key_before k k' =
     (case array_index k of
        None \<Rightarrow> array_index k' = None
      | Some a \<Rightarrow> (case array_index k' of None \<Rightarrow> True | Some b \<Rightarrow> a \<le> b))"

definition canonical :: "(string \<times> json) list \<Rightarrow> bool" where
  "canonical fs = (distinct (map fst fs) \<and> sorted_wrt key_before (map fst fs))"







section \<open>Properties of the word-level diff\<close>

declare list_emb_Nil2 [simp del]











lemma length_dp_cell [simp]: "length (dp_cell A B dp i j) = length dp"
  by (simp add: dp_cell_def)









lemma lcs_prefix_0_right [simp]: "lcs_prefix A B i 0 = 0"
  by (cases i) simp_all



lemma count_equal_rest_removed [simp]: "count_equal (rest_removed A i ops) = count_equal ops"
proof (induction A i ops rule: rest_removed.induct)
  case (1 A i ops)
  show ?case
  proof (cases "i > 0")
    case True
    then have "rest_removed A i ops = rest_removed A (i - 1) (\<lparr>op_type = Remove, op_value = A ! (i - 1)\<rparr> # ops)"
      by (subst rest_removed.simps) simp
    then show ?thesis using 1 [OF True] by (simp add: count_equal_def)
  next
    case False
    then show ?thesis by (subst rest_removed.simps) simp
  qed
qed

lemma count_equal_rest_added [simp]: "count_equal (rest_added B j ops) = count_equal ops"
proof (induction B j ops rule: rest_added.induct)
  case (1 B j ops)
  show ?case
  proof (cases "j > 0")
    case True
    then have "rest_added B j ops = rest_added B (j - 1) (\<lparr>op_type = Add, op_value = B ! (j - 1)\<rparr> # ops)"
      by (subst rest_added.simps) simp
    then show ?thesis using 1 [OF True] by (simp add: count_equal_def)
  next
    case False
    then show ?thesis by (subst rest_added.simps) simp
  qed
qed








section \<open>Properties of objects and loops\<close>


lemma map_of_insert_index:
  "k \<notin> fst ` set fs \<Longrightarrow> map_of (insert_index n k v fs) = (map_of fs)(k \<mapsto> v)"
proof (induction fs)
  case Nil
  show ?case by simp
next
  case (Cons a fs)
  obtain k' v' where a: "a = (k', v')" by (cases a)
  from Cons.prems have ne: "k' \<noteq> k" and notin: "k \<notin> fst ` set fs" by (auto simp: a)
  show ?case using Cons.IH [OF notin] ne
    by (auto simp: a fun_upd_twist split: option.splits)
qed

lemma map_of_snoc_fresh:
  "k \<notin> fst ` set fs \<Longrightarrow> map_of (fs @ [(k, v)]) = (map_of fs)(k \<mapsto> v)"
proof (rule ext)
  fix x assume "k \<notin> fst ` set fs"
  then have "map_of fs k = None" by (simp add: map_of_eq_None_iff)
  then show "map_of (fs @ [(k, v)]) x = ((map_of fs)(k \<mapsto> v)) x"
    by (auto simp: map_add_def split: option.splits)
qed

lemma map_of_obj_set: "map_of (obj_set k v fs) = (map_of fs)(k \<mapsto> v)"
  by (simp add: obj_set_def update_conv' map_of_insert_index map_of_snoc_fresh
           del: map_of_append split: option.splits)


lemma get_obj_set: "get (JObj (obj_set k v fs)) k' = (if k' = k then v else get (JObj fs) k')"
  by (simp add: map_of_obj_set)


lemma in_set_map_filter: "x \<in> set (List.map_filter f xs) \<longleftrightarrow> (\<exists>y \<in> set xs. f y = Some x)"
  by (induction xs) (auto split: option.splits)


section \<open>Properties of the identity maps and of skill entries\<close>

lemma index_map_snoc:
  "index_map key (xs @ [x]) = AList.update (key x (length xs)) (x, length xs) (index_map key xs)"
  by (simp add: index_map_def enumerate_append_eq)

lemma map_of_index_map_snoc:
  "map_of (index_map key (xs @ [x])) = (map_of (index_map key xs))(key x (length xs) \<mapsto> (x, length xs))"
  by (simp add: index_map_snoc update_conv')

lemma index_map_Nil [simp]: "index_map key [] = []"
  by (simp add: index_map_def)

lemma map_of_index_map_None:
  "(\<forall>j < length xs. key (xs ! j) j \<noteq> k) \<Longrightarrow> map_of (index_map key xs) k = None"
proof (induction xs rule: rev_induct)
  case Nil
  show ?case by simp
next
  case (snoc x xs)
  have "\<forall>j < length xs. key (xs ! j) j \<noteq> k"
  proof (intro allI impI)
    fix j assume "j < length xs"
    then show "key (xs ! j) j \<noteq> k" using snoc.prems [rule_format, of j] by (simp add: nth_append)
  qed
  moreover have "key x (length xs) \<noteq> k" using snoc.prems [rule_format, of "length xs"] by simp
  ultimately show ?case using snoc.IH by (simp add: map_of_index_map_snoc)
qed

lemma last_with_key_alt:
  "last_with_key key xs k i \<longleftrightarrow>
     i < length xs \<and> key (xs ! i) i = k \<and> (\<forall>j. i < j \<longrightarrow> j < length xs \<longrightarrow> key (xs ! j) j \<noteq> k)"
  unfolding last_with_key_def by (auto simp: Ball_def Suc_le_eq)

lemma last_with_key_snoc:
  "last_with_key key (xs @ [x]) k i \<longleftrightarrow>
     (if key x (length xs) = k then i = length xs else last_with_key key xs k i)"
proof (cases "key x (length xs) = k")
  case True
  have "i = length xs" if "last_with_key key (xs @ [x]) k i"
  proof (rule ccontr)
    assume "i \<noteq> length xs"
    with that have "i < length xs" by (simp add: last_with_key_alt)
    with that have "key ((xs @ [x]) ! length xs) (length xs) \<noteq> k"
      unfolding last_with_key_alt by (metis length_append_singleton lessI)
    with True show False by simp
  qed
  moreover have "last_with_key key (xs @ [x]) k (length xs)"
    using True by (simp add: last_with_key_alt)
  ultimately show ?thesis using True by auto
next
  case False
  have "last_with_key key xs k i" if l: "last_with_key key (xs @ [x]) k i"
  proof -
    from l False have "i \<noteq> length xs" by (auto simp: last_with_key_alt)
    with l have i: "i < length xs" by (simp add: last_with_key_alt)
    have "key (xs ! j) j \<noteq> k" if "i < j" "j < length xs" for j
    proof -
      from that l have "key ((xs @ [x]) ! j) j \<noteq> k"
        unfolding last_with_key_alt by (metis length_append_singleton less_Suc_eq)
      with that show ?thesis by (simp add: nth_append)
    qed
    with l i show ?thesis by (simp add: last_with_key_alt nth_append)
  qed
  moreover have "last_with_key key (xs @ [x]) k i" if l: "last_with_key key xs k i"
  proof -
    from l have i: "i < length xs" by (simp add: last_with_key_alt)
    have "key ((xs @ [x]) ! j) j \<noteq> k" if "i < j" "j < length (xs @ [x])" for j
    proof (cases "j < length xs")
      case True
      with that l show ?thesis by (simp add: last_with_key_alt nth_append)
    next
      case nl: False
      with that have "j = length xs" by simp
      with False show ?thesis by simp
    qed
    with l i show ?thesis by (simp add: last_with_key_alt nth_append)
  qed
  ultimately show ?thesis using False by auto
qed

lemma map_of_index_map_iff:
  "map_of (index_map key xs) k = Some (x, i) \<longleftrightarrow> last_with_key key xs k i \<and> x = xs ! i"
proof (induction xs rule: rev_induct)
  case Nil
  show ?case by (simp add: last_with_key_alt)
next
  case (snoc y xs)
  show ?case
  proof (cases "key y (length xs) = k")
    case True
    then show ?thesis by (auto simp: map_of_index_map_snoc last_with_key_snoc)
  next
    case False
    have "last_with_key key xs k i \<Longrightarrow> i < length xs" by (simp add: last_with_key_alt)
    then show ?thesis using False snoc.IH
      by (auto simp: map_of_index_map_snoc last_with_key_snoc nth_append)
  qed
qed

lemma map_of_index_map_last:
  "last_with_key key xs k i \<Longrightarrow> map_of (index_map key xs) k = Some (xs ! i, i)"
  by (simp add: map_of_index_map_iff)


lemma extract_not_object: "\<not> is_object e \<Longrightarrow> extractSkillLabelValue e = ('''', '''')"
  by (simp add: extractSkillLabelValue_def)

lemma show_nat_0: "show_nat 0 = ''0''"
  by (subst show_nat.simps) (simp add: digit_char_def)

lemma no_label_entry_cases:
  "no_label_entry e \<Longrightarrow> \<not> is_object e \<or> (\<exists>v. e = JObj [(''id'', v)])"
proof (cases e)
  case (JArr xs)
  assume n: "no_label_entry e"
  show ?thesis
  proof (cases xs)
    case Nil
    with n JArr show ?thesis by (simp add: no_label_entry_def object_keys_def is_object_def)
  next
    case (Cons x ys)
    with n JArr have "length xs = 1"
      by (auto simp: no_label_entry_def object_keys_def is_object_def dest!: arg_cong [where f = length])
    with n JArr show ?thesis
      by (cases xs) (auto simp: no_label_entry_def object_keys_def is_object_def show_nat_0)
  qed
next
  case (JObj fs)
  assume n: "no_label_entry e"
  with JObj show ?thesis
    by (cases fs) (auto simp: no_label_entry_def object_keys_def is_object_def)
qed (auto simp: no_label_entry_def is_object_def)

lemma skillEntryToText_no_label: "no_label_entry e \<Longrightarrow> skillEntryToText e = ''''"
proof -
  assume "no_label_entry e"
  then consider "\<not> is_object e" | v where "e = JObj [(''id'', v)]"
    using no_label_entry_cases by blast
  then show ?thesis
  proof cases
    case 1
    then show ?thesis by (simp add: skillEntryToText_def extract_not_object)
  next
    case 2
    then show ?thesis
      by (simp add: skillEntryToText_def extractSkillLabelValue_def is_object_def is_string_def
            object_keys_def)
  qed
qed

lemma point_items_form:
  "x \<in> set (point_items p r a mk) \<Longrightarrow> \<exists>pid b c. x = mk pid b c"
  by (auto simp: point_items_def Let_def in_set_map_filter split: if_splits)

lemma no_skill_item_in_summary: "x \<in> set (summary_items r a) \<Longrightarrow> \<not> skill_item_for k x"
  by (auto simp: summary_items_def Let_def split: if_splits)

lemma no_skill_item_in_experience: "x \<in> set (experience_items r a) \<Longrightarrow> \<not> skill_item_for k x"
  by (auto simp: experience_items_def Let_def dest!: point_items_form)

lemma no_skill_item_in_projects: "x \<in> set (project_items r a) \<Longrightarrow> \<not> skill_item_for k x"
  by (auto simp: project_items_def Let_def dest!: point_items_form)

lemma entry_at_last:
  "last_with_key skill_key xs k i \<Longrightarrow> entry_at (skillMap xs) k = js_or (xs ! i) JNull"
  by (simp add: entry_at_def skillMap_def map_of_index_map_last)

lemma no_label_entry_or_null: "no_label_entry e \<Longrightarrow> no_label_entry (js_or e JNull)"
  by (simp add: js_or_def no_label_entry_def is_object_def)

lemma skill_items_skip:
  assumes "last_with_key skill_key (elems (get r ''skills'')) k i"
    and "no_label_entry (elems (get r ''skills'') ! i)"
    and "last_with_key skill_key (elems (get a ''skills'')) k j"
    and "no_label_entry (elems (get a ''skills'') ! j)"
    and "x \<in> set (skill_items r a)"
  shows "\<not> skill_item_for k x"
proof
  assume sk: "skill_item_for k x"
  have b: "skillEntryToText (entry_at (skillMap (elems (get r ''skills''))) k) = ''''"
    using assms(1,2) by (simp add: entry_at_last skillEntryToText_no_label no_label_entry_or_null)
  have c: "skillEntryToText (entry_at (skillMap (elems (get a ''skills''))) k) = ''''"
    using assms(3,4) by (simp add: entry_at_last skillEntryToText_no_label no_label_entry_or_null)
  from assms(5) obtain idx sid where
    "(let beforeEntry = entry_at (skillMap (elems (get r ''skills''))) sid;
          afterEntry = entry_at (skillMap (elems (get a ''skills''))) sid;
          beforeText = skillEntryToText beforeEntry;
          afterText = skillEntryToText afterEntry
      in if beforeText = '''' \<and> afterText = '''' then None
         else if beforeText = afterText then None
         else Some (SkillItem (''skill:'' @ to_string sid)
                (if skillEntryLabel afterEntry \<noteq> '''' then skillEntryLabel afterEntry
                 else if skillEntryLabel beforeEntry \<noteq> '''' then skillEntryLabel beforeEntry
                 else ''Skill '' @ show_nat (idx + 1))
                sid (JStr beforeText) (JStr afterText))) = Some x"
    unfolding skill_items_def Let_def in_set_map_filter by auto
  then have "sid = k \<Longrightarrow> False" and "\<exists>i t b c. x = SkillItem i t sid b c"
    using b c by (auto simp: Let_def split: if_splits)
  with sk show False by auto
qed

text \<open>
  Claim C10, as amended. The text \<open>label: value\<close> of a skill entry that is not an object, or
  whose only key is \<open>id\<close>, is the empty string. Consequently, when for an id (a string, a
  number or a boolean) the last entry of the original's skills that carries the id and the
  last entry of the candidate's skills that carries it are both such entries,
  \<open>buildChangeItems\<close> emits no skill item for that id. (An entry carries its \<open>id\<close>, or
  \<open>skill-<n>\<close> for its position \<open>n\<close> when it has none; a \<open>Map\<close> keeps the last entry set for
  a key.)
\<close>

theorem no_label_entries_give_no_item:
  "(no_label_entry e \<longrightarrow> skillEntryToText e = '''')
   \<and> (is_primitive k
        \<and> last_with_key skill_key (elems (get resumeJson ''skills'')) k i
        \<and> no_label_entry (elems (get resumeJson ''skills'') ! i)
        \<and> last_with_key skill_key (elems (get analysisJson ''skills'')) k j
        \<and> no_label_entry (elems (get analysisJson ''skills'') ! j)
      \<longrightarrow> filter (skill_item_for k) (buildChangeItems resumeJson analysisJson) = [])"
proof (intro conjI impI)
  assume "no_label_entry e"
  then show "skillEntryToText e = ''''" by (rule skillEntryToText_no_label)
next
  assume h: "is_primitive k
        \<and> last_with_key skill_key (elems (get resumeJson ''skills'')) k i
        \<and> no_label_entry (elems (get resumeJson ''skills'') ! i)
        \<and> last_with_key skill_key (elems (get analysisJson ''skills'')) k j
        \<and> no_label_entry (elems (get analysisJson ''skills'') ! j)"
  have "\<not> skill_item_for k x" if "x \<in> set (buildChangeItems resumeJson analysisJson)" for x
    using that h skill_items_skip [of resumeJson k i analysisJson j x]
      no_skill_item_in_summary [of x resumeJson analysisJson k]
      no_skill_item_in_experience [of x resumeJson analysisJson k]
      no_skill_item_in_projects [of x resumeJson analysisJson k]
    by (auto simp: buildChangeItems_def split: if_splits)
  then show "filter (skill_item_for k) (buildChangeItems resumeJson analysisJson) = []"
    by (simp add: filter_empty_conv)
qed

theorem no_label_entries_give_no_item_witness:
  "no_label_entry (JStr ''React'') \<and> skillEntryToText (JStr ''React'') = ''''
   \<and> is_primitive (JStr ''skill-1'')
   \<and> last_with_key skill_key (elems (get (JObj [(''skills'', JArr [JStr ''React''])]) ''skills'')) (JStr ''skill-1'') 0
   \<and> no_label_entry (elems (get (JObj [(''skills'', JArr [JStr ''React''])]) ''skills'') ! 0)
   \<and> last_with_key skill_key (elems (get (JObj [(''skills'', JArr [JObj [(''id'', JStr ''skill-1'')]])]) ''skills'')) (JStr ''skill-1'') 0
   \<and> no_label_entry (elems (get (JObj [(''skills'', JArr [JObj [(''id'', JStr ''skill-1'')]])]) ''skills'') ! 0)
   \<and> filter (skill_item_for (JStr ''skill-1''))
        (buildChangeItems (JObj [(''skills'', JArr [JStr ''React''])])
           (JObj [(''skills'', JArr [JObj [(''id'', JStr ''skill-1'')]])])) = []"
proof -
  have h1: "no_label_entry (JStr ''React'')" by (simp add: no_label_entry_def is_object_def)
  have h2: "last_with_key skill_key (elems (get (JObj [(''skills'', JArr [JStr ''React''])]) ''skills'')) (JStr ''skill-1'') 0"
    by (simp add: last_with_key_def skill_key_def js_or_def js_and_def show_nat.simps digit_char_def)
  have h3: "no_label_entry (elems (get (JObj [(''skills'', JArr [JStr ''React''])]) ''skills'') ! 0)"
    by (simp add: no_label_entry_def is_object_def)
  have h4: "last_with_key skill_key (elems (get (JObj [(''skills'', JArr [JObj [(''id'', JStr ''skill-1'')]])]) ''skills'')) (JStr ''skill-1'') 0"
    by (simp add: last_with_key_def skill_key_def js_or_def js_and_def)
  have h5: "no_label_entry (elems (get (JObj [(''skills'', JArr [JObj [(''id'', JStr ''skill-1'')]])]) ''skills'') ! 0)"
    by (simp add: no_label_entry_def is_object_def object_keys_def)
  show ?thesis
    using no_label_entries_give_no_item [of "JStr ''React''" "JStr ''skill-1''"
        "JObj [(''skills'', JArr [JStr ''React''])]" 0
        "JObj [(''skills'', JArr [JObj [(''id'', JStr ''skill-1'')]])]" 0]
      h1 h2 h3 h4 h5
    by simp
qed

text \<open>
  Claim C10 as stated fails when an id is repeated: the entry \<open>{id: 'a'}\<close> appears under
  the id \<open>a\<close> in both documents, and an item for \<open>a\<close> is emitted all the same, because the
  original has a later entry under the same id.
\<close>

theorem repeated_skill_id_counterexample:
  "no_label_entry (JObj [(''id'', JStr ''a'')])
   \<and> skill_key (JObj [(''id'', JStr ''a'')]) 0 = JStr ''a''
   \<and> buildChangeItems
        (JObj [(''skills'', JArr [JObj [(''id'', JStr ''a'')],
                                  JObj [(''id'', JStr ''a''), (''label'', JStr ''X'')]])])
        (JObj [(''skills'', JArr [JObj [(''id'', JStr ''a'')]])])
      = [SkillItem ''skill:a'' ''X'' (JStr ''a'') (JStr ''X'') (JStr '''')]"
  by code_simp

section \<open>Properties of the normalizer\<close>



lemma array_index_basics [simp]:
  "array_index ''basics'' = None" "array_index ''summary'' = None" "array_index ''skills'' = None"
  "array_index ''experience'' = None" "array_index ''projects'' = None"
  "array_index ''education'' = None" "array_index ''certificates'' = None"
  "array_index ''id'' = None" "array_index ''text'' = None" "array_index ''points'' = None"
  by (simp_all add: array_index_def is_digit_def)




lemma trimmed_id_nonempty: "trimmed_id x = Some i \<Longrightarrow> i \<noteq> []"
  by (auto simp: trimmed_id_def split: if_splits)

lemma is_string_iff: "is_string x \<longleftrightarrow> (\<exists>s. x = JStr s)"
  by (cases x) (simp_all add: is_string_def)


lemma is_id_text_summary: "fb \<noteq> JUndef \<Longrightarrow> is_string fb \<Longrightarrow> str_of fb \<noteq> [] \<Longrightarrow> is_id_text (normalizeSummaryValue s fb)"
  by (auto simp: normalizeSummaryValue_def is_id_text_def is_string_iff Let_def
        dest: trimmed_id_nonempty split: option.splits)















lemma at_Nil [simp]: "at [] i = JUndef"
  by (simp add: at_def)










section \<open>Properties of the merge\<close>

lemma get_assemble:
  "get (assemble r w) ''summary'' = w_summary w"
  "get (assemble r w) ''skills'' = JArr (w_skills w)"
  "get (assemble r w) ''experience'' = JArr (w_experience w)"
  "get (assemble r w) ''projects'' = JArr (w_projects w)"
  by (simp_all add: assemble_def map_of_obj_set)



lemma clone_each_objects: "clone_each xs = Inr ys \<Longrightarrow> list_all is_obj ys"
  by (induction xs arbitrary: ys) (auto simp: clone_job_def split: if_splits sum.splits)



lemma result_skills_filtered:
  assumes "buildUpdatedResumeData resumeJson analysisJson changeItems changeState = Inr doc"
    "truthy resumeJson" "truthy analysisJson"
  shows "isArray (get doc ''skills'')
         \<and> list_all (\<lambda>entry. is_object entry \<and> object_keys entry \<noteq> []) (elems (get doc ''skills''))"
  using assms
  by (auto simp: buildUpdatedResumeData_def Let_def get_assemble list_all_iff split: sum.splits)

lemma get_pushed_points:
  "get (JObj (obj_set ''points'' (JArr []) fs)) ''points'' = JArr []"
  by (simp add: map_of_obj_set)














lemma canonical_Nil [simp]: "canonical []"
  by (simp add: canonical_def)











lemma get_obj_Some: "is_obj x \<Longrightarrow> k \<in> set (object_keys x) \<Longrightarrow> map_of (own_entries x) k = Some (get x k)"
  by (cases x) (auto simp: object_keys_def image_iff map_of_eq_None_iff split: option.splits)

























text \<open>
  Claim C7, as amended. When both documents are present and \<open>buildUpdatedResumeData\<close>
  returns a document, its \<open>skills\<close> is an array and every entry of it is an array or an
  object with at least one own key. (An entry whose only key is \<open>id\<close>, or whose \<open>label\<close> and
  \<open>value\<close> are empty strings, has a key and stays.)
\<close>

theorem merged_skills_have_a_key:
  "buildUpdatedResumeData resumeJson analysisJson changeItems changeState = Inr doc
   \<and> truthy resumeJson \<and> truthy analysisJson
   \<longrightarrow> isArray (get doc ''skills'')
       \<and> list_all (\<lambda>entry. is_object entry \<and> object_keys entry \<noteq> []) (elems (get doc ''skills''))"
  using result_skills_filtered [of resumeJson analysisJson changeItems changeState doc]
  by blast

theorem merged_skills_have_a_key_witness:
  "buildUpdatedResumeData
     (JObj [(''skills'', JArr [JObj [], JStr ''React'', JObj [(''label'', JStr ''Go'')]])])
     (JObj []) [] (\<lambda>k. False)
   = Inr (JObj [(''skills'', JArr [JObj [(''label'', JStr ''Go'')]]), (''basics'', JObj []),
                (''summary'', JUndef), (''experience'', JArr []), (''projects'', JArr []),
                (''education'', JArr []), (''certificates'', JArr [])])
   \<and> truthy (JObj [(''skills'', JArr [JObj [], JStr ''React'', JObj [(''label'', JStr ''Go'')]])])
   \<and> truthy (JObj [])
   \<and> isArray (get (JObj [(''skills'', JArr [JObj [(''label'', JStr ''Go'')]]), (''basics'', JObj []),
                (''summary'', JUndef), (''experience'', JArr []), (''projects'', JArr []),
                (''education'', JArr []), (''certificates'', JArr [])]) ''skills'')
   \<and> list_all (\<lambda>entry. is_object entry \<and> object_keys entry \<noteq> [])
        (elems (get (JObj [(''skills'', JArr [JObj [(''label'', JStr ''Go'')]]), (''basics'', JObj []),
                (''summary'', JUndef), (''experience'', JArr []), (''projects'', JArr []),
                (''education'', JArr []), (''certificates'', JArr [])]) ''skills''))"
proof -
  have h: "buildUpdatedResumeData
     (JObj [(''skills'', JArr [JObj [], JStr ''React'', JObj [(''label'', JStr ''Go'')]])])
     (JObj []) [] (\<lambda>k. False)
   = Inr (JObj [(''skills'', JArr [JObj [(''label'', JStr ''Go'')]]), (''basics'', JObj []),
                (''summary'', JUndef), (''experience'', JArr []), (''projects'', JArr []),
                (''education'', JArr []), (''certificates'', JArr [])])"
    by code_simp
  have t: "truthy (JObj [(''skills'', JArr [JObj [], JStr ''React'', JObj [(''label'', JStr ''Go'')]])])
           \<and> truthy (JObj [])"
    by simp
  from merged_skills_have_a_key [of
      "JObj [(''skills'', JArr [JObj [], JStr ''React'', JObj [(''label'', JStr ''Go'')]])]"
      "JObj []" "[]" "\<lambda>k. False"
      "JObj [(''skills'', JArr [JObj [(''label'', JStr ''Go'')]]), (''basics'', JObj []),
                (''summary'', JUndef), (''experience'', JArr []), (''projects'', JArr []),
                (''education'', JArr []), (''certificates'', JArr [])]"] h t
  show ?thesis by blast
qed

text \<open>
  Claim C7 as stated fails: the final filter keeps an entry that has a key, also when its
  label and its value are both empty. The skill entry \<open>{}\<close> of the input is normalized to
  \<open>{id: 'skill-1'}\<close>, and the merge returns the document with that entry.
\<close>

theorem empty_label_value_entry_stays:
  "buildUpdatedResumeData (normalizeResumeJson (JObj [(''skills'', JArr [JObj []])]))
     (normalizeResumeJson (JObj [(''skills'', JArr [JObj []])])) [] (\<lambda>k. False)
   = Inr (normalizeResumeJson (JObj [(''skills'', JArr [JObj []])]))
   \<and> get (normalizeResumeJson (JObj [(''skills'', JArr [JObj []])])) ''skills''
     = JArr [JObj [(''id'', JStr ''skill-1'')]]
   \<and> extractSkillLabelValue (JObj [(''id'', JStr ''skill-1'')]) = ('''', '''')"
  by code_simp




section \<open>Alignment of experience points by id\<close>



















end
